theory Spec2Isabelle
  imports Complex_Main "HOL-Library.AList" "HOL-Library.Word"
begin

section \<open>Values shared by the models\<close>

text \<open>
  Python integers are unbounded and are modelled as \<^typ>\<open>int\<close>;
  \<^verbatim>\<open>fractions.Fraction\<close> is an exact rational in lowest
  terms with a positive denominator and is modelled as \<^typ>\<open>rat\<close>, its attributes
  \<^verbatim>\<open>numerator\<close> and \<^verbatim>\<open>denominator\<close> being the components of \<^const>\<open>quotient_of\<close>.
  Every \<^verbatim>\<open>raise\<close> is a value \<open>Inl e\<close> of the result type.
\<close>

datatype error =
    ArbitrageError string
  | DegenbotValueError string
  | EVMRevertError
  | LiquidityPoolError
  | RateOfExchangeBelowMinimum rat
  | ValueError string
  | ZeroDivisionError
  | KeyError
  | IndexError
  | AssertionError
  | NameError string

type_synonym address = string

text \<open>An \<^verbatim>\<open>Erc20Token\<close> is used by the engine only through its identity and its address.\<close>

type_synonym token = address

section \<open>Weighted pool adapter\<close>

text \<open>
  Source: \<^verbatim>\<open>src/degenbot/balancer/pools.py\<close> and \<^verbatim>\<open>types.py\<close>. The fixed-point, scaling
  and weighted-math libraries are not among the sources; their functions are parameters,
  over exact rationals (a Python \<^verbatim>\<open>int\<close> or \<^verbatim>\<open>Fraction\<close>), and may raise.
\<close>

record BalancerV2PoolState =
  address :: address
  block :: "nat option"
  balances :: "int list"

record BalancerV2Pool =
  tokens :: "token list"
  scaling_factors :: "int list"
  fee :: rat
  weights :: "int list"
  state :: BalancerV2PoolState

record balancer_libraries =
  mulUp :: "int \<Rightarrow> rat \<Rightarrow> error + rat"
  subtractSwapFeeAmount :: "int \<Rightarrow> rat \<Rightarrow> error + rat"
  upscaleArray :: "int list \<Rightarrow> int list \<Rightarrow> error + rat list"
  upscale :: "rat \<Rightarrow> int \<Rightarrow> error + rat"
  calcOutGivenIn :: "int \<Rightarrow> int \<Rightarrow> int \<Rightarrow> int \<Rightarrow> int \<Rightarrow> error + rat"
  downscaleDown :: "rat \<Rightarrow> int \<Rightarrow> error + rat"

definition FEE_DENOMINATOR :: int where
  "FEE_DENOMINATOR = 1 * 10 ^ 18"

text \<open>\<^verbatim>\<open>int(x)\<close> rounds towards zero.\<close>

definition py_int :: "rat \<Rightarrow> int" where
  "py_int x = (if 0 \<le> x then \<lfloor>x\<rfloor> else \<lceil>x\<rceil>)"

text \<open>\<^verbatim>\<open>tuple.index\<close>: the position of the first element equal to the argument.\<close>

fun list_index :: "'a list \<Rightarrow> 'a \<Rightarrow> nat option" where
  "list_index [] x = None"
| "list_index (y # ys) x = (if y = x then Some 0 else map_option Suc (list_index ys x))"

text \<open>
  \<^verbatim>\<open>BalancerV2Pool.calculate_tokens_out_from_tokens_in\<close>. \<^verbatim>\<open>_upscaleArray\<close> works on a
  copy of the balances, in place; the model takes the scaled copy as its result.
\<close>

definition calculate_tokens_out_from_tokens_in ::
  "balancer_libraries \<Rightarrow> BalancerV2Pool \<Rightarrow> token \<Rightarrow> int \<Rightarrow> token \<Rightarrow> BalancerV2PoolState option
    \<Rightarrow> error + int" where
  "calculate_tokens_out_from_tokens_in lib self token_in token_in_quantity token_out override_state =
    (case list_index (tokens self) token_in of
       None \<Rightarrow> Inl (ValueError ''tuple.index(x): x not in tuple'')
     | Some token_in_index \<Rightarrow>
    (case list_index (tokens self) token_out of
       None \<Rightarrow> Inl (ValueError ''tuple.index(x): x not in tuple'')
     | Some token_out_index \<Rightarrow>
    (case mulUp lib token_in_quantity (fee self * of_int FEE_DENOMINATOR) of
       Inl e \<Rightarrow> Inl e
     | Inr fee_amount \<Rightarrow>
    (case subtractSwapFeeAmount lib token_in_quantity (fee self * of_int FEE_DENOMINATOR) of
       Inl e \<Rightarrow> Inl e
     | Inr amount_new \<Rightarrow>
    if of_int token_in_quantity - fee_amount \<noteq> amount_new then Inl AssertionError
    else
    (case upscaleArray lib (balances (state self)) (scaling_factors self) of
       Inl e \<Rightarrow> Inl e
     | Inr scaled \<Rightarrow>
    if length (scaling_factors self) \<le> token_in_index then Inl IndexError
    else
    (case upscale lib amount_new (scaling_factors self ! token_in_index) of
       Inl e \<Rightarrow> Inl e
     | Inr amount_scaled \<Rightarrow>
    if length scaled \<le> token_in_index \<or> length (weights self) \<le> token_in_index
       \<or> length scaled \<le> token_out_index \<or> length (weights self) \<le> token_out_index
    then Inl IndexError
    else
    (case calcOutGivenIn lib (py_int (scaled ! token_in_index)) (weights self ! token_in_index)
            (py_int (scaled ! token_out_index)) (weights self ! token_out_index)
            (py_int amount_scaled) of
       Inl e \<Rightarrow> Inl e
     | Inr amountOut \<Rightarrow>
    if length (scaling_factors self) \<le> token_out_index then Inl IndexError
    else
    (case downscaleDown lib amountOut (scaling_factors self ! token_out_index) of
       Inl e \<Rightarrow> Inl e
     | Inr amount \<Rightarrow> Inr (py_int amount)))))))))"

section \<open>Data model of the arbitrage cycle engine\<close>

text \<open>Source: \<^verbatim>\<open>src/degenbot/arbitrage/uniswap_lp_cycle.py\<close>.\<close>

text \<open>
  The pool classes the \<^verbatim>\<open>match\<close> statements of the engine distinguish. The class
  declarations are not part of the sources at hand; a pool is taken to be an instance of
  exactly one of the three classes named in the patterns.
\<close>

datatype pool_class = AerodromeV2Pool | UniswapV2Pool | UniswapV3Pool

text \<open>
  Pool states. \<^verbatim>\<open>tick_data\<close> is a dictionary from tick to the liquidity at that tick
  (gross, net); it is kept as an association list of its items. Only the attributes the
  engine reads are kept.
\<close>

datatype pool_state =
    AerodromeV2PoolState (block: "nat option") (reserves_token0: int) (reserves_token1: int)
  | UniswapV2PoolState (block: "nat option") (reserves_token0: int) (reserves_token1: int)
  | UniswapV3PoolState (block: "nat option") (sqrt_price_x96: int)
      (tick_data: "(int \<times> int \<times> int) list")

record pool =
  pool_class :: pool_class
  address :: address
  token0 :: token
  token1 :: token
  state :: pool_state
  fee_token0 :: rat
  fee_token1 :: rat
  fee :: int
  sparse_liquidity_map :: bool

record UniswapPoolSwapVector =
  token_in :: token
  token_out :: token
  zero_for_one :: bool

text \<open>
  The cycle object: the attributes set by the constructor. \<^verbatim>\<open>_pool_viability\<close> is a
  dictionary keyed by pool address.
\<close>

record UniswapLpCycle =
  cycle_id :: string
  input_token :: token
  swap_pools :: "pool list"
  swap_vectors :: "UniswapPoolSwapVector list"
  pool_viability :: "(address \<times> bool) list"
  max_input :: int

section \<open>Pool viability\<close>

definition isinstance_v2_pool :: "pool \<Rightarrow> bool" where
  "isinstance_v2_pool p \<longleftrightarrow> pool_class p = AerodromeV2Pool \<or> pool_class p = UniswapV2Pool"

definition isinstance_v3_pool :: "pool \<Rightarrow> bool" where
  "isinstance_v3_pool p \<longleftrightarrow> pool_class p = UniswapV3Pool"

fun isinstance_v2_state :: "pool_state \<Rightarrow> bool" where
  "isinstance_v2_state (AerodromeV2PoolState _ _ _) = True"
| "isinstance_v2_state (UniswapV2PoolState _ _ _) = True"
| "isinstance_v2_state (UniswapV3PoolState _ _ _) = False"

fun isinstance_v3_state :: "pool_state \<Rightarrow> bool" where
  "isinstance_v3_state (UniswapV3PoolState _ _ _) = True"
| "isinstance_v3_state _ = False"

text \<open>
  \<^verbatim>\<open>_pool_is_viable\<close>. The last branch calls \<^verbatim>\<open>get_sqrt_ratio_at_tick\<close>, a name the
  module neither defines nor imports (it imports the two price bounds from the tick-math
  library and nothing else), so looking the name up raises \<^verbatim>\<open>NameError\<close> before the
  argument is evaluated, for either direction of the trade.
\<close>

definition pool_is_viable :: "pool \<Rightarrow> pool_state \<Rightarrow> UniswapPoolSwapVector \<Rightarrow> error + bool" where
  "pool_is_viable p st vector =
    (if isinstance_v2_pool p \<and> isinstance_v2_state st then
       if reserves_token0 st = 0 \<or> reserves_token1 st = 0 then Inr False
       else Inr (if zero_for_one vector then reserves_token1 st > 1 else reserves_token0 st > 1)
     else if isinstance_v3_pool p \<and> isinstance_v3_state st then
       if sparse_liquidity_map p then Inr True
       else if tick_data st = [] then Inr False
       else if sqrt_price_x96 st = 0 then
         (if tick_data st \<noteq> [] then Inl (ValueError ''Found pool with liquidity positions, but price=0!'')
          else Inr False)
       else if zero_for_one vector then Inl (NameError ''get_sqrt_ratio_at_tick'')
       else Inl (NameError ''get_sqrt_ratio_at_tick'')
     else Inl (DegenbotValueError ''Could not identify pool and state.''))"

section \<open>Pre-calculation check\<close>

definition numerator :: "rat \<Rightarrow> int" where
  "numerator q = fst (quotient_of q)"

definition denominator :: "rat \<Rightarrow> int" where
  "denominator q = snd (quotient_of q)"

text \<open>
  The methods of the cycle read \<^verbatim>\<open>self\<close>; each is a function of the cycle that returns
  its outcome together with the cycle as it is afterwards.

  The second disjunct of the viability condition: the flag cached for the pool's address.
\<close>

definition cached_viability_check ::
  "pool \<Rightarrow> UniswapLpCycle \<Rightarrow> (error + unit) \<times> UniswapLpCycle" where
  "cached_viability_check p self =
    (case map_of (pool_viability self) (address p) of
       None \<Rightarrow> (Inl KeyError, self)
     | Some flag \<Rightarrow>
         if flag = False then (Inl (ArbitrageError ''Pool is not viable''), self)
         else (Inr (), self))"

text \<open>
  One iteration of the viability loop. When the pool's address has an override, the
  override is checked with the vector found at \<^verbatim>\<open>self.swap_pools.index(pool)\<close>, the
  position of the first pool equal to this one (pools are compared as values); a
  non-viable override raises before the cached flag is read.
\<close>

definition viability_check ::
  "(address \<times> pool_state) list \<Rightarrow> pool \<Rightarrow> UniswapLpCycle
    \<Rightarrow> (error + unit) \<times> UniswapLpCycle" where
  "viability_check state_overrides p self =
    (case map_of state_overrides (address p) of
       None \<Rightarrow> cached_viability_check p self
     | Some st \<Rightarrow>
         (case list_index (swap_pools self) p of
            None \<Rightarrow> (Inl (ValueError ''tuple.index(x): x not in tuple''), self)
          | Some i \<Rightarrow>
              if i < length (swap_vectors self) then
                (case pool_is_viable p st (swap_vectors self ! i) of
                   Inl e \<Rightarrow> (Inl e, self)
                 | Inr viable \<Rightarrow>
                     if \<not> viable then (Inl (ArbitrageError ''Pool is not viable''), self)
                     else cached_viability_check p self)
              else (Inl IndexError, self)))"

fun viability_loop ::
  "(address \<times> pool_state) list \<Rightarrow> pool list \<Rightarrow> UniswapLpCycle
    \<Rightarrow> (error + unit) \<times> UniswapLpCycle" where
  "viability_loop state_overrides [] self = (Inr (), self)"
| "viability_loop state_overrides (p # ps) self =
    (case viability_check state_overrides p self of
       (Inl e, self') \<Rightarrow> (Inl e, self')
     | (Inr u, self') \<Rightarrow> viability_loop state_overrides ps self')"

text \<open>\<^verbatim>\<open>state_overrides.get(pool.address, pool.state)\<close>\<close>

definition hop_state :: "(address \<times> pool_state) list \<Rightarrow> pool \<Rightarrow> pool_state" where
  "hop_state state_overrides p =
    (case map_of state_overrides (address p) of None \<Rightarrow> state p | Some st \<Rightarrow> st)"

text \<open>
  The body of the second loop: the numerator and the denominator appended for one hop.
\<close>

definition exchange_rate ::
  "pool \<Rightarrow> pool_state \<Rightarrow> UniswapPoolSwapVector \<Rightarrow> error + (int \<times> int)" where
  "exchange_rate p pool_state vector =
    (if isinstance_v2_pool p \<and> isinstance_v2_state pool_state then
       if zero_for_one vector then
         Inr (reserves_token1 pool_state * (denominator (fee_token0 p) - numerator (fee_token0 p)),
              reserves_token0 pool_state * denominator (fee_token0 p))
       else
         Inr (reserves_token0 pool_state * (denominator (fee_token1 p) - numerator (fee_token1 p)),
              reserves_token1 pool_state * denominator (fee_token1 p))
     else if isinstance_v3_pool p \<and> isinstance_v3_state pool_state then
       if zero_for_one vector then
         Inr (sqrt_price_x96 pool_state * sqrt_price_x96 pool_state * (1000000 - fee p),
              6277101735386680763835789423207666416102355444464034512896 * 1000000)
       else
         Inr (6277101735386680763835789423207666416102355444464034512896 * (1000000 - fee p),
              sqrt_price_x96 pool_state * sqrt_price_x96 pool_state * 1000000)
     else Inl (DegenbotValueError ''Could not identify pool.''))"

text \<open>
  The second loop runs over \<^verbatim>\<open>zip(self.swap_pools, self._swap_vectors, strict=True)\<close>,
  which raises once one of the two sequences is exhausted before the other.
\<close>

fun exchange_rate_loop ::
  "(address \<times> pool_state) list \<Rightarrow> pool list \<Rightarrow> UniswapPoolSwapVector list \<Rightarrow> int list \<Rightarrow> int list
    \<Rightarrow> error + (int list \<times> int list)" where
  "exchange_rate_loop state_overrides [] [] nums dens = Inr (nums, dens)"
| "exchange_rate_loop state_overrides (p # ps) (v # vs) nums dens =
    (case exchange_rate p (hop_state state_overrides p) v of
       Inl e \<Rightarrow> Inl e
     | Inr (n, d) \<Rightarrow> exchange_rate_loop state_overrides ps vs (nums @ [n]) (dens @ [d]))"
| "exchange_rate_loop state_overrides _ _ nums dens =
    Inl (ValueError ''zip() arguments have different lengths'')"

text \<open>An absent mapping of overrides is the empty dictionary.\<close>

definition overrides_of :: "(address \<times> pool_state) list option \<Rightarrow> (address \<times> pool_state) list" where
  "overrides_of state_overrides = (case state_overrides of None \<Rightarrow> [] | Some m \<Rightarrow> m)"

text \<open>
  \<^verbatim>\<open>_pre_calculation_check\<close>. \<^verbatim>\<open>Fraction(n, d)\<close> raises when \<open>d\<close> is zero; otherwise it
  is the rational \<open>n / d\<close>.
\<close>

definition pre_calculation_check ::
  "rat \<Rightarrow> (address \<times> pool_state) list option \<Rightarrow> UniswapLpCycle
    \<Rightarrow> (error + unit) \<times> UniswapLpCycle" where
  "pre_calculation_check min_rate_of_exchange state_overrides self =
    (let overrides = overrides_of state_overrides in
     case viability_loop overrides (swap_pools self) self of
       (Inl e, self') \<Rightarrow> (Inl e, self')
     | (Inr u, self') \<Rightarrow>
         (case exchange_rate_loop overrides (swap_pools self') (swap_vectors self') [] [] of
            Inl e \<Rightarrow> (Inl e, self')
          | Inr (exchange_rate_numerators, exchange_rate_denominators) \<Rightarrow>
              if prod_list exchange_rate_denominators = 0 then (Inl ZeroDivisionError, self')
              else
                let net_rate_of_exchange =
                      Fract (prod_list exchange_rate_numerators)
                            (prod_list exchange_rate_denominators)
                in if net_rate_of_exchange < min_rate_of_exchange
                   then (Inl (RateOfExchangeBelowMinimum net_rate_of_exchange), self')
                   else (Inr (), self')))"

subsection \<open>The rate of exchange in the words of the specification\<close>

text \<open>
  The rate of one hop: reserves out times (fee denominator minus fee numerator) over
  reserves in times fee denominator for a constant-product pool; for a
  concentrated-liquidity pool the squared price times (1000000 minus fee) over \<open>2^192\<close>
  times 1000000 when token0 is sold, and the same with the price inverted when token1 is
  sold.
\<close>

definition hop_rate :: "pool \<Rightarrow> pool_state \<Rightarrow> UniswapPoolSwapVector \<Rightarrow> rat" where
  "hop_rate p st vector =
    (if isinstance_v2_pool p then
       if zero_for_one vector then
         of_int (reserves_token1 st) * of_int (denominator (fee_token0 p) - numerator (fee_token0 p))
           / (of_int (reserves_token0 st) * of_int (denominator (fee_token0 p)))
       else
         of_int (reserves_token0 st) * of_int (denominator (fee_token1 p) - numerator (fee_token1 p))
           / (of_int (reserves_token1 st) * of_int (denominator (fee_token1 p)))
     else
       if zero_for_one vector then
         (of_int (sqrt_price_x96 st))\<^sup>2 * of_int (1000000 - fee p) / (2 ^ 192 * 1000000)
       else
         2 ^ 192 * of_int (1000000 - fee p) / ((of_int (sqrt_price_x96 st))\<^sup>2 * 1000000))"

text \<open>The factor (1 - fee) of a hop, and its price with no fee.\<close>

definition hop_fee_factor :: "pool \<Rightarrow> UniswapPoolSwapVector \<Rightarrow> rat" where
  "hop_fee_factor p vector =
    (if isinstance_v2_pool p then
       1 - (if zero_for_one vector then fee_token0 p else fee_token1 p)
     else 1 - of_int (fee p) / 1000000)"

definition hop_price :: "pool \<Rightarrow> pool_state \<Rightarrow> UniswapPoolSwapVector \<Rightarrow> rat" where
  "hop_price p st vector =
    (if isinstance_v2_pool p then
       if zero_for_one vector then of_int (reserves_token1 st) / of_int (reserves_token0 st)
       else of_int (reserves_token0 st) / of_int (reserves_token1 st)
     else
       if zero_for_one vector then (of_int (sqrt_price_x96 st))\<^sup>2 / 2 ^ 192
       else 2 ^ 192 / (of_int (sqrt_price_x96 st))\<^sup>2)"

definition net_rate :: "(address \<times> pool_state) list \<Rightarrow> UniswapLpCycle \<Rightarrow> rat" where
  "net_rate overrides self =
    prod_list (map2 (\<lambda>p v. hop_rate p (hop_state overrides p) v) (swap_pools self) (swap_vectors self))"

definition fee_product :: "UniswapLpCycle \<Rightarrow> rat" where
  "fee_product self = prod_list (map2 hop_fee_factor (swap_pools self) (swap_vectors self))"

definition price_product :: "(address \<times> pool_state) list \<Rightarrow> UniswapLpCycle \<Rightarrow> rat" where
  "price_product overrides self =
    prod_list (map2 (\<lambda>p v. hop_price p (hop_state overrides p) v) (swap_pools self) (swap_vectors self))"

text \<open>
  A hop whose pool and state are of one family, and whose denominator is not zero: the
  reserve paid into is nonzero, or the price is nonzero when token1 is sold.
\<close>

definition hop_defined :: "(address \<times> pool_state) list \<Rightarrow> pool \<Rightarrow> UniswapPoolSwapVector \<Rightarrow> bool" where
  "hop_defined overrides p vector =
    (let st = hop_state overrides p in
     if isinstance_v2_pool p then
       isinstance_v2_state st \<and>
       (if zero_for_one vector then reserves_token0 st else reserves_token1 st) \<noteq> 0
     else
       isinstance_v3_state st \<and> (zero_for_one vector \<or> sqrt_price_x96 st \<noteq> 0))"

section \<open>Calculation\<close>

text \<open>
  The pool adapters are not among the sources. \<^verbatim>\<open>pool.calculate_tokens_out_from_tokens_in\<close>
  is a parameter \<open>calc\<close> taking the pool, the token paid in, its quantity and the optional
  override state; it returns the quantity paid out or raises.

  The pairs of pool class and state class that the \<^verbatim>\<open>match\<close> statements of the profit
  function accept: each pool class with the state class of its own name.
\<close>

fun pool_matches_state :: "pool_class \<Rightarrow> pool_state \<Rightarrow> bool" where
  "pool_matches_state AerodromeV2Pool (AerodromeV2PoolState _ _ _) = True"
| "pool_matches_state UniswapV2Pool (UniswapV2PoolState _ _ _) = True"
| "pool_matches_state UniswapV3Pool (UniswapV3PoolState _ _ _) = True"
| "pool_matches_state _ _ = False"

text \<open>
  The loop of \<^verbatim>\<open>arb_profit\<close> over \<^verbatim>\<open>enumerate(zip(pools, vectors, strict=True))\<close>, with
  the loop index and the variable \<^verbatim>\<open>token_out_quantity\<close> carried along.
\<close>

fun arb_profit_loop ::
  "(pool \<Rightarrow> token \<Rightarrow> int \<Rightarrow> pool_state option \<Rightarrow> error + int) \<Rightarrow> (address \<times> pool_state) list
    \<Rightarrow> int \<Rightarrow> nat \<Rightarrow> pool list \<Rightarrow> UniswapPoolSwapVector list \<Rightarrow> int \<Rightarrow> error + int" where
  "arb_profit_loop calc pool_states token_in_quantity i [] [] token_out_quantity =
    Inr token_out_quantity"
| "arb_profit_loop calc pool_states token_in_quantity i (p # ps) (v # vs) token_out_quantity =
    (case map_of pool_states (address p) of
       None \<Rightarrow> Inl KeyError
     | Some st \<Rightarrow>
         if pool_matches_state (pool_class p) st then
           (case calc p (token_in v) (if i = 0 then token_in_quantity else token_out_quantity)
                   (Some st) of
              Inl e \<Rightarrow> Inl e
            | Inr out \<Rightarrow> arb_profit_loop calc pool_states token_in_quantity (Suc i) ps vs out)
         else Inl (DegenbotValueError ''Unrecognized pool and state.''))"
| "arb_profit_loop calc pool_states token_in_quantity i _ _ token_out_quantity =
    Inl (ValueError ''zip() arguments have different lengths'')"

text \<open>
  \<^verbatim>\<open>arb_profit\<close>, the function handed to the optimizer. Its argument is a finite float,
  taken here as the rational it denotes. The value returned is the integer that the
  source converts with \<^verbatim>\<open>float\<close> and negates; the conversion is left out.
\<close>

definition arb_profit ::
  "(pool \<Rightarrow> token \<Rightarrow> int \<Rightarrow> pool_state option \<Rightarrow> error + int) \<Rightarrow> UniswapLpCycle
    \<Rightarrow> (address \<times> pool_state) list \<Rightarrow> rat \<Rightarrow> error + int" where
  "arb_profit calc self pool_states x =
    (let token_in_quantity = py_int x in
     case arb_profit_loop calc pool_states token_in_quantity 0
            (swap_pools self) (swap_vectors self) 0 of
       Inl e \<Rightarrow>
         if e = EVMRevertError \<or> e = LiquidityPoolError then Inr (- (0 - token_in_quantity))
         else Inl e
     | Inr token_out_quantity \<Rightarrow> Inr (- (token_out_quantity - token_in_quantity)))"

subsection \<open>The chain of hops in the words of the specification\<close>

text \<open>
  One hop: the adapter of the pool applied to the quantity paid in, at the state recorded
  for the pool. The cycle: every hop is fed the output of the hop before it, the first
  one the quantity given, and the first exception ends the chain.
\<close>

definition hop_output ::
  "(pool \<Rightarrow> token \<Rightarrow> int \<Rightarrow> pool_state option \<Rightarrow> error + int) \<Rightarrow> (address \<times> pool_state) list
    \<Rightarrow> pool \<times> UniswapPoolSwapVector \<Rightarrow> int \<Rightarrow> error + int" where
  "hop_output calc pool_states h quantity =
    (case map_of pool_states (address (fst h)) of
       None \<Rightarrow> Inl KeyError
     | Some st \<Rightarrow>
         if pool_matches_state (pool_class (fst h)) st
         then calc (fst h) (token_in (snd h)) quantity (Some st)
         else Inl (DegenbotValueError ''Unrecognized pool and state.''))"

definition cycle_output ::
  "(pool \<Rightarrow> token \<Rightarrow> int \<Rightarrow> pool_state option \<Rightarrow> error + int) \<Rightarrow> (address \<times> pool_state) list
    \<Rightarrow> (pool \<times> UniswapPoolSwapVector) list \<Rightarrow> int \<Rightarrow> error + int" where
  "cycle_output calc pool_states hops quantity =
    foldl (\<lambda>acc h. case acc of Inl e \<Rightarrow> Inl e | Inr out \<Rightarrow> hop_output calc pool_states h out)
      (Inr quantity) hops"

definition hops_recognised :: "(address \<times> pool_state) list \<Rightarrow> pool list \<Rightarrow> bool" where
  "hops_recognised pool_states ps =
    list_all (\<lambda>p. case map_of pool_states (address p) of
                     None \<Rightarrow> False
                   | Some st \<Rightarrow> pool_matches_state (pool_class p) st) ps"

datatype SwapAmount =
    UniswapV2PoolSwapAmounts address "int \<times> int" "int \<times> int"
  | UniswapV3PoolSwapAmounts address int bool int





text \<open>
  The dictionary \<^verbatim>\<open>pool_states\<close> of \<^verbatim>\<open>_calculate\<close>: the state of every pool of the cycle
  under its address, updated with every item of the overrides. A dictionary keeps one item
  per key, in the order of first insertion.
\<close>

definition pool_states_of ::
  "UniswapLpCycle \<Rightarrow> (address \<times> pool_state) list option \<Rightarrow> (address \<times> pool_state) list" where
  "pool_states_of self state_overrides =
    (let pool_states = fold (\<lambda>p d. AList.update (address p) (state p) d) (swap_pools self) []
     in case state_overrides of
          None \<Rightarrow> pool_states
        | Some m \<Rightarrow> fold (\<lambda>(k, st) d. AList.update k st d) m pool_states)"





text \<open>
  \<^verbatim>\<open>calculate_with_pool\<close>. The future returned stands for the call of \<^verbatim>\<open>_calculate\<close>
  with the overrides, submitted to the executor.
\<close>

datatype executor = ProcessPoolExecutor | ThreadPoolExecutor

datatype future = Future executor "(address \<times> pool_state) list option"

definition calculate_with_pool ::
  "executor \<Rightarrow> (address \<times> pool_state) list option \<Rightarrow> rat
    \<Rightarrow> UniswapLpCycle \<Rightarrow> (error + future) \<times> UniswapLpCycle" where
  "calculate_with_pool ex state_overrides min_rate_of_exchange self =
    (if ex = ProcessPoolExecutor \<and>
        list_ex sparse_liquidity_map (filter isinstance_v3_pool (swap_pools self))
     then (Inl (DegenbotValueError
            ''Cannot perform calculation with process pool executor. One or more V3 pools has a sparse bitmap.''),
           self)
     else
       (case pre_calculation_check min_rate_of_exchange state_overrides self of
          (Inl e, self') \<Rightarrow> (Inl e, self')
        | (Inr u, self') \<Rightarrow> (Inr (Future ex state_overrides), self')))"

section \<open>Payloads\<close>

text \<open>
  A call is kept as its function and arguments; the four-byte selector and the ABI
  encoding of the arguments are not spelled out.
\<close>

datatype calldata =
    Transfer address int
  | SwapV2 int int address "8 word list"
  | SwapV3 address bool int int "8 word list"

type_synonym payload = "address \<times> calldata \<times> int"

fun is_v2_amounts :: "SwapAmount \<Rightarrow> bool" where
  "is_v2_amounts (UniswapV2PoolSwapAmounts _ _ _) = True"
| "is_v2_amounts (UniswapV3PoolSwapAmounts _ _ _ _) = False"

text \<open>The \<^verbatim>\<open>match\<close> statement of the loop: the first case that fits is the one run.\<close>

definition hop_payload ::
  "UniswapLpCycle \<Rightarrow> int \<Rightarrow> nat \<Rightarrow> pool \<Rightarrow> SwapAmount \<Rightarrow> address \<Rightarrow> int \<Rightarrow> error + payload" where
  "hop_payload self swap_amount i swap_pool amounts swap_destination_address msg_value =
    (if i = 0 \<and> isinstance_v2_pool swap_pool then
       Inr (input_token self, Transfer (address swap_pool) swap_amount, msg_value)
     else if isinstance_v2_pool swap_pool \<and> is_v2_amounts amounts then
       (case amounts of
          UniswapV2PoolSwapAmounts _ _ (out0, out1) \<Rightarrow>
            Inr (address swap_pool, SwapV2 out0 out1 swap_destination_address [], msg_value)
        | _ \<Rightarrow> Inl (DegenbotValueError ''Could not identify pool and swap amounts.''))
     else if isinstance_v3_pool swap_pool \<and> \<not> is_v2_amounts amounts then
       (case amounts of
          UniswapV3PoolSwapAmounts _ amount_specified zfo sqrt_price_limit_x96 \<Rightarrow>
            Inr (address swap_pool,
                 SwapV3 swap_destination_address zfo amount_specified sqrt_price_limit_x96 [],
                 msg_value)
        | _ \<Rightarrow> Inl (DegenbotValueError ''Could not identify pool and swap amounts.''))
     else Inl (DegenbotValueError ''Could not identify pool and swap amounts.''))"

fun generate_payloads_loop ::
  "UniswapLpCycle \<Rightarrow> address \<Rightarrow> int \<Rightarrow> int \<Rightarrow> nat \<Rightarrow> pool list \<Rightarrow> SwapAmount list \<Rightarrow> payload list
    \<Rightarrow> error + payload list" where
  "generate_payloads_loop self from_address swap_amount msg_value i [] [] payloads = Inr payloads"
| "generate_payloads_loop self from_address swap_amount msg_value i (swap_pool # ps) (amounts # as)
     payloads =
    (let swap_destination_address =
           (if int i < int (length (swap_pools self)) - 1 \<and>
               isinstance_v2_pool (swap_pools self ! (i + 1))
            then address (swap_pools self ! (i + 1)) else from_address)
     in case hop_payload self swap_amount i swap_pool amounts swap_destination_address msg_value of
          Inl e \<Rightarrow> Inl e
        | Inr pl \<Rightarrow>
            generate_payloads_loop self from_address swap_amount msg_value (Suc i) ps as
              (payloads @ [pl]))"
| "generate_payloads_loop self from_address swap_amount msg_value i _ _ payloads =
    Inl (ValueError ''zip() arguments have different lengths'')"

text \<open>
  \<^verbatim>\<open>generate_payloads\<close>. \<^verbatim>\<open>to_checksum_address\<close> belongs to an outside library and is a
  parameter; it raises on a string that is no address.
\<close>

definition generate_payloads ::
  "(string \<Rightarrow> error + address) \<Rightarrow> UniswapLpCycle \<Rightarrow> string \<Rightarrow> int \<Rightarrow> SwapAmount list
    \<Rightarrow> error + payload list" where
  "generate_payloads to_checksum_address self from_address swap_amount pool_swap_amounts =
    (case to_checksum_address from_address of
       Inl e \<Rightarrow> Inl e
     | Inr from_address' \<Rightarrow>
         generate_payloads_loop self from_address' swap_amount 0 0 (swap_pools self)
           pool_swap_amounts [])"

section \<open>Decoding a router path\<close>

text \<open>
  Source: \<^verbatim>\<open>src/degenbot/uniswap/v3_functions.py\<close>. Bytes are 8-bit words.
  \<^verbatim>\<open>int.from_bytes\<close> reads its argument big-endian.
\<close>

definition int_from_bytes :: "8 word list \<Rightarrow> int" where
  "int_from_bytes chunk = foldl (\<lambda>acc b. acc * 256 + uint b) 0 chunk"

datatype path_item = PathAddress address | PathFee int

text \<open>
  \<^verbatim>\<open>decode_v3_path\<close>: the loop over the endless alternation of a 20-byte address and a
  3-byte fee, left only when the position meets the length of the path. A run that never
  leaves the loop is the value \<open>None\<close>.
\<close>

partial_function (option) decode_v3_path_loop ::
  "(8 word list \<Rightarrow> error + address) \<Rightarrow> 8 word list \<Rightarrow> bool \<Rightarrow> nat \<Rightarrow> path_item list
    \<Rightarrow> (error + path_item list) option" where
  "decode_v3_path_loop to_checksum_address path address_turn path_pos decoded_path =
    (let byte_length = (if address_turn then 20 else 3);
         chunk = take byte_length (drop path_pos path)
     in case (if address_turn
              then (case to_checksum_address chunk of
                      Inl e \<Rightarrow> Inl e
                    | Inr a \<Rightarrow> Inr (PathAddress a))
              else Inr (PathFee (int_from_bytes chunk))) of
          Inl e \<Rightarrow> Some (Inl e)
        | Inr item \<Rightarrow>
            if path_pos + byte_length = length path then Some (Inr (decoded_path @ [item]))
            else decode_v3_path_loop to_checksum_address path (\<not> address_turn)
                   (path_pos + byte_length) (decoded_path @ [item]))"

declare decode_v3_path_loop.simps [code]

definition decode_v3_path ::
  "(8 word list \<Rightarrow> error + address) \<Rightarrow> 8 word list \<Rightarrow> (error + path_item list) option" where
  "decode_v3_path to_checksum_address path =
    decode_v3_path_loop to_checksum_address path True 0 []"

section \<open>Example cycles\<close>

text \<open>
  The two-hop scenario of the specification: constant-product pools with reserves
  (1000, 1000) and (1050, 950), both with a fee of 0.3 percent, entered with token0 of the
  first pool; and the same first pool walked there and back.
\<close>

definition pool_a :: pool where
  "pool_a = \<lparr>pool_class = UniswapV2Pool, address = ''0xA'', token0 = ''T0'', token1 = ''T1'',
     state = UniswapV2PoolState (Some 10) 1000 1000,
     fee_token0 = 3 / 1000, fee_token1 = 3 / 1000, fee = 0, sparse_liquidity_map = False\<rparr>"

definition pool_b :: pool where
  "pool_b = \<lparr>pool_class = UniswapV2Pool, address = ''0xB'', token0 = ''T0'', token1 = ''T1'',
     state = UniswapV2PoolState (Some 12) 1050 950,
     fee_token0 = 3 / 1000, fee_token1 = 3 / 1000, fee = 0, sparse_liquidity_map = False\<rparr>"

definition vector_01 :: UniswapPoolSwapVector where
  "vector_01 = \<lparr>token_in = ''T0'', token_out = ''T1'', zero_for_one = True\<rparr>"

definition vector_10 :: UniswapPoolSwapVector where
  "vector_10 = \<lparr>token_in = ''T1'', token_out = ''T0'', zero_for_one = False\<rparr>"

definition cycle_ab :: UniswapLpCycle where
  "cycle_ab = \<lparr>cycle_id = ''ab'', input_token = ''T0'', swap_pools = [pool_a, pool_b],
     swap_vectors = [vector_01, vector_10],
     pool_viability = [(''0xA'', True), (''0xB'', True)], max_input = 500\<rparr>"

definition cycle_aa :: UniswapLpCycle where
  "cycle_aa = \<lparr>cycle_id = ''aa'', input_token = ''T0'', swap_pools = [pool_a, pool_a],
     swap_vectors = [vector_01, vector_10],
     pool_viability = [(''0xA'', True)], max_input = 500\<rparr>"

text \<open>A concentrated-liquidity pool at price 1 with one position around the price.\<close>

definition pool_c :: pool where
  "pool_c = \<lparr>pool_class = UniswapV3Pool, address = ''0xC'', token0 = ''T0'', token1 = ''T1'',
     state = UniswapV3PoolState (Some 11) (2 ^ 96) [(-60, 5, 5), (60, 5, -5)],
     fee_token0 = 0, fee_token1 = 0, fee = 3000, sparse_liquidity_map = False\<rparr>"

definition pool_c_sparse :: pool where
  "pool_c_sparse = pool_c\<lparr>sparse_liquidity_map := True\<rparr>"

text \<open>A cycle that enters through the sparse concentrated-liquidity pool.\<close>

definition cycle_cb :: UniswapLpCycle where
  "cycle_cb = \<lparr>cycle_id = ''cb'', input_token = ''T0'', swap_pools = [pool_c_sparse, pool_b],
     swap_vectors = [vector_01, vector_10],
     pool_viability = [(''0xC'', True), (''0xB'', True)], max_input = 500\<rparr>"

text \<open>
  A stand-in for the pool adapters: the constant-product formula with a fee of 0.3
  percent, which raises on a quantity or a reserve that is not positive.
\<close>

definition example_calc :: "pool \<Rightarrow> token \<Rightarrow> int \<Rightarrow> pool_state option \<Rightarrow> error + int" where
  "example_calc p t quantity override =
    (let st = (case override of None \<Rightarrow> state p | Some s \<Rightarrow> s) in
     if isinstance_v2_state st then
       (let reserve_in = (if t = token0 p then reserves_token0 st else reserves_token1 st);
            reserve_out = (if t = token0 p then reserves_token1 st else reserves_token0 st)
        in if quantity \<le> 0 \<or> reserve_in \<le> 0 then Inl LiquidityPoolError
           else Inr (quantity * 997 * reserve_out div (reserve_in * 1000 + quantity * 997)))
     else Inl EVMRevertError)"


text \<open>
  A stand-in for the address checksum (lower-case hexadecimal of 20 bytes), and a path of
  two addresses around the fee 3000.
\<close>

definition example_checksum :: "8 word list \<Rightarrow> error + address" where
  "example_checksum chunk =
    (if length chunk = 20
     then Inr (concat (map (\<lambda>b. [''0123456789abcdef'' ! (unat b div 16),
                                 ''0123456789abcdef'' ! (unat b mod 16)]) chunk))
     else Inl (ValueError ''Unknown format, attempted to normalize to an address''))"

definition example_path :: "8 word list" where
  "example_path = replicate 20 1 @ [0, 11, 184] @ replicate 20 2"

section \<open>Auxiliary facts\<close>

lemma v3_iff_not_v2: "isinstance_v3_pool p \<longleftrightarrow> \<not> isinstance_v2_pool p"
  by (cases "pool_class p") (simp_all add: isinstance_v2_pool_def isinstance_v3_pool_def)

lemma v3_state_not_v2: "isinstance_v3_state st \<Longrightarrow> \<not> isinstance_v2_state st"
  by (cases st) simp_all

lemma pool_is_viable_v3_branches:
  assumes "isinstance_v3_pool p" and "isinstance_v3_state st"
  shows "pool_is_viable p st vector =
    (if sparse_liquidity_map p then Inr True
     else if tick_data st = [] then Inr False
     else if sqrt_price_x96 st = 0
       then Inl (ValueError ''Found pool with liquidity positions, but price=0!'')
     else Inl (NameError ''get_sqrt_ratio_at_tick''))"
  using assms v3_state_not_v2 [of st] by (simp add: pool_is_viable_def)

lemma denominator_pos: "0 < denominator q"
  unfolding denominator_def by (cases "quotient_of q") (simp add: quotient_of_denom_pos)

lemma fraction_value: "of_int (numerator q) / of_int (denominator q) = q"
proof (cases "quotient_of q")
  case (Pair a b)
  from quotient_of_div [OF Pair] Pair show ?thesis
    by (simp add: numerator_def denominator_def)
qed

lemma exchange_rate_hop:
  assumes "hop_defined ov p v"
  shows "\<exists>n d. exchange_rate p (hop_state ov p) v = Inr (n, d) \<and> d \<noteq> 0 \<and>
           of_int n / of_int d = hop_rate p (hop_state ov p) v"
proof (cases "isinstance_v2_pool p")
  case True
  with assms have st: "isinstance_v2_state (hop_state ov p)"
    and nz: "(if zero_for_one v then reserves_token0 (hop_state ov p)
              else reserves_token1 (hop_state ov p)) \<noteq> 0"
    by (simp_all add: hop_defined_def Let_def)
  have d0: "denominator (fee_token0 p) \<noteq> 0" and d1: "denominator (fee_token1 p) \<noteq> 0"
    using denominator_pos [of "fee_token0 p"] denominator_pos [of "fee_token1 p"] by simp_all
  show ?thesis
    using True st nz d0 d1
    by (cases "zero_for_one v") (simp_all add: exchange_rate_def hop_rate_def)
next
  case False
  with assms have st: "isinstance_v3_state (hop_state ov p)"
    and nz: "zero_for_one v \<or> sqrt_price_x96 (hop_state ov p) \<noteq> 0"
    by (simp_all add: hop_defined_def Let_def)
  from False have v3: "isinstance_v3_pool p" by (simp add: v3_iff_not_v2)
  show ?thesis
    using False v3 st nz
    by (cases "zero_for_one v") (simp_all add: exchange_rate_def hop_rate_def power2_eq_square)
qed

lemma exchange_rate_loop_defined:
  assumes "list_all2 (hop_defined ov) ps vs"
  shows "\<exists>ns' ds'. exchange_rate_loop ov ps vs ns ds = Inr (ns @ ns', ds @ ds') \<and>
           prod_list ds' \<noteq> 0 \<and>
           of_int (prod_list ns') / of_int (prod_list ds') =
             prod_list (map2 (\<lambda>p v. hop_rate p (hop_state ov p) v) ps vs)"
  using assms
proof (induction ps vs arbitrary: ns ds rule: list_all2_induct)
  case Nil
  show ?case by (intro exI [of _ "[]"]) simp
next
  case (Cons p ps v vs)
  from exchange_rate_hop [OF Cons.hyps(1)] obtain n d where
    hop: "exchange_rate p (hop_state ov p) v = Inr (n, d)" "d \<noteq> 0"
      "of_int n / of_int d = hop_rate p (hop_state ov p) v"
    by blast
  from Cons.IH [of "ns @ [n]" "ds @ [d]"] obtain ns' ds' where
    rest: "exchange_rate_loop ov ps vs (ns @ [n]) (ds @ [d]) = Inr ((ns @ [n]) @ ns', (ds @ [d]) @ ds')"
      "prod_list ds' \<noteq> 0"
      "of_int (prod_list ns') / of_int (prod_list ds') =
         prod_list (map2 (\<lambda>p v. hop_rate p (hop_state ov p) v) ps vs)"
    by blast
  have "of_int (prod_list (n # ns')) / of_int (prod_list (d # ds')) =
      (of_int n / of_int d) * (of_int (prod_list ns') / of_int (prod_list ds') :: rat)"
    by simp
  with hop rest show ?case
    by (intro exI [of _ "n # ns'"] exI [of _ "d # ds'"]) simp
qed

lemma hop_rate_split:
  assumes "hop_defined ov p v"
  shows "hop_rate p (hop_state ov p) v = hop_price p (hop_state ov p) v * hop_fee_factor p v"
proof -
  have f0: "1 - fee_token0 p = of_int (denominator (fee_token0 p) - numerator (fee_token0 p)) / of_int (denominator (fee_token0 p))"
    using denominator_pos [of "fee_token0 p"] fraction_value [of "fee_token0 p"]
    by (simp add: diff_divide_distrib)
  have f1: "1 - fee_token1 p = of_int (denominator (fee_token1 p) - numerator (fee_token1 p)) / of_int (denominator (fee_token1 p))"
    using denominator_pos [of "fee_token1 p"] fraction_value [of "fee_token1 p"]
    by (simp add: diff_divide_distrib)
  have f3: "1 - of_int (fee p) / 1000000 = (of_int (1000000 - fee p) / 1000000 :: rat)"
    by (simp add: diff_divide_distrib)
  show ?thesis
    unfolding hop_rate_def hop_price_def hop_fee_factor_def
    by (simp add: f0 f1 f3 del: of_int_diff)
qed

lemma prod_list_map2_mult:
  "prod_list (map2 (\<lambda>p v. f p v * (g p v :: rat)) ps vs) =
   prod_list (map2 f ps vs) * prod_list (map2 g ps vs)"
  by (induction ps vs rule: list_induct2') (simp_all add: ac_simps)

lemma rate_split:
  assumes "list_all2 (hop_defined ov) ps vs"
  shows "prod_list (map2 (\<lambda>p v. hop_rate p (hop_state ov p) v) ps vs) =
         prod_list (map2 (\<lambda>p v. hop_price p (hop_state ov p) v) ps vs) *
         prod_list (map2 hop_fee_factor ps vs)"
  using assms
  by (induction ps vs rule: list_all2_induct) (simp_all add: hop_rate_split ac_simps)

lemma viability_check_self: "snd (viability_check ov p self) = self"
  by (simp add: viability_check_def cached_viability_check_def
      split: option.splits sum.splits)

lemma viability_loop_self: "snd (viability_loop ov ps self) = self"
proof (induction ps)
  case Nil
  show ?case by simp
next
  case (Cons p ps)
  obtain r s where step: "viability_check ov p self = (r, s)"
    by (cases "viability_check ov p self")
  with viability_check_self [of ov p self] have "s = self" by simp
  with step Cons show ?case by (cases r) simp_all
qed

lemma pure_fee_loss:
  fixes P F :: rat
  assumes "0 \<le> P" "P \<le> 1" "F < 1"
  shows "P * F < 1"
proof (cases "0 \<le> F")
  case True
  with assms have "P * F \<le> 1 * F" by (intro mult_right_mono) simp_all
  with assms show ?thesis by simp
next
  case False
  with assms have "P * F \<le> 0" by (simp add: mult_nonneg_nonpos)
  then show ?thesis by simp
qed

lemma take3_drop20:
  assumes "length (path :: 'a list) = 43"
  shows "take 3 (drop 20 path) = [path ! 20, path ! 21, path ! 22]"
proof -
  have "length (take 3 (drop 20 path)) = 3" using assms by simp
  moreover have "take 3 (drop 20 path) ! i = [path ! 20, path ! 21, path ! 22] ! i" if "i < 3" for i
  proof -
    from that consider "i = 0" | "i = 1" | "i = 2" by linarith
    then show ?thesis using assms by cases simp_all
  qed
  ultimately show ?thesis by (intro nth_equalityI) simp_all
qed

lemma foldl_hops_Inl:
  "foldl (\<lambda>acc h. case acc of Inl e \<Rightarrow> Inl e | Inr out \<Rightarrow> f h out) (Inl e) hops = Inl e"
  by (induction hops) simp_all

lemma cycle_output_Cons:
  "cycle_output calc pst (h # hops) q =
    (case hop_output calc pst h q of Inl e \<Rightarrow> Inl e | Inr out \<Rightarrow> cycle_output calc pst hops out)"
  by (cases "hop_output calc pst h q") (simp_all add: cycle_output_def foldl_hops_Inl)

lemma arb_profit_loop_chain:
  assumes "length ps = length vs" and "i = 0 \<longrightarrow> ps \<noteq> []"
  shows "arb_profit_loop calc pst tin i ps vs tout =
         cycle_output calc pst (zip ps vs) (if i = 0 then tin else tout)"
  using assms
proof (induction ps vs arbitrary: i tout rule: list_induct2)
  case Nil
  then show ?case by (simp add: cycle_output_def)
next
  case (Cons p ps v vs)
  have step: "arb_profit_loop calc pst tin i (p # ps) (v # vs) tout =
      (case hop_output calc pst (p, v) (if i = 0 then tin else tout) of
         Inl e \<Rightarrow> Inl e
       | Inr out \<Rightarrow> arb_profit_loop calc pst tin (Suc i) ps vs out)"
    by (simp add: hop_output_def split: option.splits)
  show ?case
    unfolding step zip_Cons_Cons cycle_output_Cons
    by (simp add: Cons.IH split: sum.splits)
qed

lemma cycle_output_defined:
  assumes "length ps = length vs" and "hops_recognised pst ps"
    and "\<forall>p t q so e. calc p t q so = Inl e \<longrightarrow> e = EVMRevertError \<or> e = LiquidityPoolError"
  shows "case cycle_output calc pst (zip ps vs) q of
           Inl e \<Rightarrow> e = EVMRevertError \<or> e = LiquidityPoolError
         | Inr out \<Rightarrow> True"
  using assms(1,2)
proof (induction ps vs arbitrary: q rule: list_induct2)
  case Nil
  then show ?case by (simp add: cycle_output_def)
next
  case (Cons p ps v vs)
  from Cons.prems obtain st where st: "map_of pst (address p) = Some st"
    "pool_matches_state (pool_class p) st" and rest: "hops_recognised pst ps"
    by (auto simp: hops_recognised_def split: option.splits)
  have hop: "hop_output calc pst (p, v) q = calc p (token_in v) q (Some st)"
    using st by (simp add: hop_output_def)
  show ?case
  proof (cases "calc p (token_in v) q (Some st)")
    case (Inl e)
    with assms(3) have "e = EVMRevertError \<or> e = LiquidityPoolError" by blast
    with Inl hop show ?thesis by (simp add: cycle_output_Cons)
  next
    case (Inr out)
    with hop Cons.IH [OF rest, of out] show ?thesis by (simp add: cycle_output_Cons)
  qed
qed

lemma arb_profit_loop_no_hops:
  "arb_profit_loop calc pst tin i [] [] tout = Inr tout"
  by simp














lemma generate_payloads_loop_length:
  "generate_payloads_loop self from_address swap_amount msg_value i ps amounts payloads = Inr pls
   \<Longrightarrow> length pls = length payloads + length ps"
proof (induction self from_address swap_amount msg_value i ps amounts payloads
    rule: generate_payloads_loop.induct)
  case (1 self from_address swap_amount msg_value i payloads)
  then show ?case by simp
next
  case (2 self from_address swap_amount msg_value i swap_pool ps amounts as payloads)
  from "2.prems" obtain pl where
    hop: "hop_payload self swap_amount i swap_pool amounts
            (if int i < int (length (swap_pools self)) - 1 \<and>
                isinstance_v2_pool (swap_pools self ! (i + 1))
             then address (swap_pools self ! (i + 1)) else from_address) msg_value = Inr pl"
    and rest: "generate_payloads_loop self from_address swap_amount msg_value (Suc i) ps as
                 (payloads @ [pl]) = Inr pls"
    by (auto simp: Let_def split: sum.splits)
  from "2.IH" [OF refl hop rest] show ?case by simp
qed simp_all

lemma generate_payloads_length:
  assumes "generate_payloads to_checksum_address self from_address swap_amount amounts = Inr pls"
  shows "length pls = length (swap_pools self)"
  using assms generate_payloads_loop_length [of self _ swap_amount 0 0 "swap_pools self" amounts "[]" pls]
  by (auto simp: generate_payloads_def split: sum.splits)

section \<open>Properties\<close>

text \<open>
  C1, as amended. Once the viability loop has raised nothing and every hop is of one family
  with a nonzero denominator, \<^verbatim>\<open>_pre_calculation_check\<close> raises
  \<^verbatim>\<open>RateOfExchangeBelowMinimum\<close>, carrying the net rate, exactly when the net rate is
  below the minimum, and returns otherwise. The net rate is the exact rational product of
  the hop rates, and equals the product of the hop prices times the product of the factors
  (1 - fee). With a minimum of 1, a cycle whose prices multiply to a value between 0 and 1
  and whose factors (1 - fee) multiply to less than 1 is rejected, whatever the sizes of
  the reserves.
\<close>

theorem pre_calculation_check_rate:
  assumes viable: "fst (viability_loop (overrides_of so) (swap_pools self) self) = Inr ()"
    and hops: "list_all2 (hop_defined (overrides_of so)) (swap_pools self) (swap_vectors self)"
  shows "fst (pre_calculation_check min_rate so self) =
           (if net_rate (overrides_of so) self < min_rate
            then Inl (RateOfExchangeBelowMinimum (net_rate (overrides_of so) self)) else Inr ()) \<and>
         net_rate (overrides_of so) self = price_product (overrides_of so) self * fee_product self \<and>
         (min_rate = 1 \<and> 0 \<le> price_product (overrides_of so) self \<and>
          price_product (overrides_of so) self \<le> 1 \<and> fee_product self < 1 \<longrightarrow>
            fst (pre_calculation_check min_rate so self) =
              Inl (RateOfExchangeBelowMinimum (net_rate (overrides_of so) self)))"
proof -
  let ?ov = "overrides_of so"
  obtain r where loop: "viability_loop ?ov (swap_pools self) self = (r, self)"
    using viability_loop_self [of ?ov "swap_pools self" self]
    by (cases "viability_loop ?ov (swap_pools self) self") simp
  with viable have r: "r = Inr ()" by simp
  from exchange_rate_loop_defined [OF hops, of "[]" "[]"] obtain ns ds where
    rates: "exchange_rate_loop ?ov (swap_pools self) (swap_vectors self) [] [] = Inr (ns, ds)"
    and nz: "prod_list ds \<noteq> 0"
    and eq: "of_int (prod_list ns) / of_int (prod_list ds) = net_rate ?ov self"
    by (auto simp: net_rate_def)
  have fract: "Fract (prod_list ns) (prod_list ds) = net_rate ?ov self"
    using eq by (simp add: Fract_of_int_quotient)
  have main: "fst (pre_calculation_check min_rate so self) =
      (if net_rate ?ov self < min_rate
       then Inl (RateOfExchangeBelowMinimum (net_rate ?ov self)) else Inr ())"
    using loop r rates nz fract
    by (simp add: pre_calculation_check_def overrides_of_def Let_def)
  have split: "net_rate ?ov self = price_product ?ov self * fee_product self"
    using rate_split [OF hops] by (simp add: net_rate_def price_product_def fee_product_def)
  have fee: "fst (pre_calculation_check min_rate so self) =
      Inl (RateOfExchangeBelowMinimum (net_rate ?ov self))"
    if "min_rate = 1" "0 \<le> price_product ?ov self" "price_product ?ov self \<le> 1"
      "fee_product self < 1"
  proof -
    from that pure_fee_loss split have "net_rate ?ov self < 1" by simp
    with main that(1) show ?thesis by simp
  qed
  from main split fee show ?thesis by blast
qed

theorem pre_calculation_check_rate_witness:
  "fst (viability_loop (overrides_of None) (swap_pools cycle_aa) cycle_aa) = Inr () \<and>
   list_all2 (hop_defined (overrides_of None)) (swap_pools cycle_aa) (swap_vectors cycle_aa) \<and>
   0 \<le> price_product (overrides_of None) cycle_aa \<and>
   price_product (overrides_of None) cycle_aa \<le> 1 \<and> fee_product cycle_aa < 1 \<and>
   fst (pre_calculation_check 1 None cycle_aa) =
     Inl (RateOfExchangeBelowMinimum (994009 / 1000000))"
proof -
  have v: "fst (viability_loop (overrides_of None) (swap_pools cycle_aa) cycle_aa) = Inr ()"
    by code_simp
  have h: "list_all2 (hop_defined (overrides_of None)) (swap_pools cycle_aa) (swap_vectors cycle_aa)"
    by code_simp
  have p0: "0 \<le> price_product (overrides_of None) cycle_aa" by code_simp
  have p1: "price_product (overrides_of None) cycle_aa \<le> 1" by code_simp
  have f: "fee_product cycle_aa < 1" by code_simp
  have n: "net_rate (overrides_of None) cycle_aa = 994009 / 1000000" by code_simp
  from pre_calculation_check_rate [OF v h, of 1] p0 p1 f n
  have "fst (pre_calculation_check 1 None cycle_aa) =
     Inl (RateOfExchangeBelowMinimum (994009 / 1000000))" by simp
  with v h p0 p1 f show ?thesis by simp
qed

text \<open>
  C1 as first stated fails: in the two-pool scenario the factors (1 - fee) multiply
  to 994009/1000000, yet the check with a minimum of 1 returns normally, since the prices
  multiply to 21/19.
\<close>

theorem pre_calculation_check_fee_counterexample:
  "fee_product cycle_ab < 1 \<and> fst (pre_calculation_check 1 None cycle_ab) = Inr ()"
  by code_simp

text \<open>
  C2. \<^verbatim>\<open>arb_profit\<close> rounds its argument down to an integer (for an argument of at least
  1, its floor) and feeds every hop the output of the hop before it; a hop that raises
  \<^verbatim>\<open>EVMRevertError\<close> or \<^verbatim>\<open>LiquidityPoolError\<close> makes the output of the cycle zero. So
  when every pool has a state of its own class and the adapters raise nothing else, the
  function has a value at every argument.
\<close>

theorem arb_profit_total:
  assumes len: "length (swap_pools self) = length (swap_vectors self)"
  shows
    "(swap_pools self \<noteq> [] \<longrightarrow>
        arb_profit calc self pool_states x =
          (case cycle_output calc pool_states (zip (swap_pools self) (swap_vectors self)) (py_int x) of
             Inr out \<Rightarrow> Inr (- (out - py_int x))
           | Inl e \<Rightarrow> if e = EVMRevertError \<or> e = LiquidityPoolError
                      then Inr (- (0 - py_int x)) else Inl e)) \<and>
     (hops_recognised pool_states (swap_pools self) \<and>
      (\<forall>p t q so e. calc p t q so = Inl e \<longrightarrow> e = EVMRevertError \<or> e = LiquidityPoolError) \<longrightarrow>
        (\<exists>r. arb_profit calc self pool_states x = Inr r)) \<and>
     (1 \<le> x \<longrightarrow> py_int x = \<lfloor>x\<rfloor> \<and> 1 \<le> py_int x)"
proof -
  have chain: "arb_profit calc self pool_states x =
      (case cycle_output calc pool_states (zip (swap_pools self) (swap_vectors self)) (py_int x) of
         Inr out \<Rightarrow> Inr (- (out - py_int x))
       | Inl e \<Rightarrow> if e = EVMRevertError \<or> e = LiquidityPoolError
                  then Inr (- (0 - py_int x)) else Inl e)"
    if "swap_pools self \<noteq> []"
    using that arb_profit_loop_chain [OF len, of 0 calc pool_states "py_int x" 0]
    by (simp add: arb_profit_def Let_def split: sum.splits)
  have total: "\<exists>r. arb_profit calc self pool_states x = Inr r"
    if rec: "hops_recognised pool_states (swap_pools self)"
      and calc: "\<forall>p t q so e. calc p t q so = Inl e \<longrightarrow> e = EVMRevertError \<or> e = LiquidityPoolError"
  proof (cases "swap_pools self = []")
    case True
    with len show ?thesis by (simp add: arb_profit_def)
  next
    case False
    from cycle_output_defined [OF len rec calc, of "py_int x"] chain [OF False]
    show ?thesis by (auto split: sum.splits)
  qed
  have trunc: "py_int x = \<lfloor>x\<rfloor> \<and> 1 \<le> py_int x" if "1 \<le> x"
    using that by (simp add: py_int_def le_floor_iff)
  from chain total trunc show ?thesis by blast
qed

theorem arb_profit_total_witness:
  "length (swap_pools cycle_ab) = length (swap_vectors cycle_ab) \<and>
   swap_pools cycle_ab \<noteq> [] \<and>
   hops_recognised (pool_states_of cycle_ab None) (swap_pools cycle_ab) \<and>
   arb_profit example_calc cycle_ab (pool_states_of cycle_ab None) (201 / 2) = Inr 10 \<and>
   arb_profit example_calc cycle_ab (pool_states_of cycle_ab None) (1 / 2) = Inr 0"
proof -
  have len: "length (swap_pools cycle_ab) = length (swap_vectors cycle_ab)" by code_simp
  have ne: "swap_pools cycle_ab \<noteq> []" by code_simp
  have rec: "hops_recognised (pool_states_of cycle_ab None) (swap_pools cycle_ab)" by code_simp
  have faults: "\<forall>p t q so e. example_calc p t q so = Inl e \<longrightarrow>
      e = EVMRevertError \<or> e = LiquidityPoolError"
    by (auto simp: example_calc_def Let_def split: if_splits)
  have o1: "cycle_output example_calc (pool_states_of cycle_ab None)
      (zip (swap_pools cycle_ab) (swap_vectors cycle_ab)) 100 = Inr 90" by code_simp
  have o2: "cycle_output example_calc (pool_states_of cycle_ab None)
      (zip (swap_pools cycle_ab) (swap_vectors cycle_ab)) 0 = Inl LiquidityPoolError" by code_simp
  have t1: "py_int (201 / 2) = 100" and t2: "py_int (1 / 2) = 0" by code_simp+
  note a = arb_profit_total [OF len, of example_calc "pool_states_of cycle_ab None" "201 / 2"]
  note b = arb_profit_total [OF len, of example_calc "pool_states_of cycle_ab None" "1 / 2"]
  have 1: "arb_profit example_calc cycle_ab (pool_states_of cycle_ab None) (201 / 2) = Inr 10"
    using a ne o1 t1 by simp
  have 2: "arb_profit example_calc cycle_ab (pool_states_of cycle_ab None) (1 / 2) = Inr 0"
    using b ne o2 t2 by simp
  from len ne rec 1 2 show ?thesis by simp
qed

text \<open>
  C3 fails on the source. For a concentrated-liquidity pool whose liquidity map is not
  sparse, with tick data and a nonzero price, \<^verbatim>\<open>_pool_is_viable\<close> raises \<^verbatim>\<open>NameError\<close>
  where the answer should be whether a position lies below the price: the tick-math helper
  it calls is not bound in the module. The three branches before it behave as specified
  (\<open>pool_is_viable_v3_branches\<close>).
\<close>

theorem pool_is_viable_v3_unbound_helper:
  "pool_is_viable pool_c (state pool_c) vector_01 = Inl (NameError ''get_sqrt_ratio_at_tick'') \<and>
   pool_is_viable pool_c (state pool_c) vector_10 = Inl (NameError ''get_sqrt_ratio_at_tick'')"
  by (simp add: pool_is_viable_def pool_c_def isinstance_v2_pool_def isinstance_v3_pool_def)




text \<open>
  C5. With a process-based executor and a concentrated-liquidity pool with a sparse
  liquidity map in the cycle, \<^verbatim>\<open>calculate_with_pool\<close> raises before the check and before
  anything is submitted. With a thread-based executor, or with no such pool, the guard
  does not fire: the outcome is that of the pre-calculation check, followed by the
  submission of the calculation to the executor.
\<close>

theorem calculate_with_pool_refusal:
  "(ex = ProcessPoolExecutor \<and>
    (\<exists>p \<in> set (swap_pools self). isinstance_v3_pool p \<and> sparse_liquidity_map p) \<longrightarrow>
      calculate_with_pool ex so min_rate self =
        (Inl (DegenbotValueError
           ''Cannot perform calculation with process pool executor. One or more V3 pools has a sparse bitmap.''),
         self)) \<and>
   (ex = ThreadPoolExecutor \<or>
    \<not> (\<exists>p \<in> set (swap_pools self). isinstance_v3_pool p \<and> sparse_liquidity_map p) \<longrightarrow>
      fst (calculate_with_pool ex so min_rate self) =
        (case fst (pre_calculation_check min_rate so self) of
           Inl e \<Rightarrow> Inl e
         | Inr u \<Rightarrow> Inr (Future ex so)))"
proof -
  have guard: "list_ex sparse_liquidity_map (filter isinstance_v3_pool (swap_pools self)) \<longleftrightarrow>
      (\<exists>p \<in> set (swap_pools self). isinstance_v3_pool p \<and> sparse_liquidity_map p)"
    by (auto simp: list_ex_iff)
  show ?thesis
    unfolding calculate_with_pool_def guard
    by (auto split: prod.splits sum.splits)
qed

theorem calculate_with_pool_refusal_witness:
  "(\<exists>p \<in> set (swap_pools cycle_cb). isinstance_v3_pool p \<and> sparse_liquidity_map p) \<and>
   fst (calculate_with_pool ProcessPoolExecutor None 1 cycle_cb) =
     Inl (DegenbotValueError
       ''Cannot perform calculation with process pool executor. One or more V3 pools has a sparse bitmap.'') \<and>
   fst (calculate_with_pool ThreadPoolExecutor None 1 cycle_cb) =
     Inr (Future ThreadPoolExecutor None) \<and>
   fst (calculate_with_pool ProcessPoolExecutor None 1 cycle_ab) =
     Inr (Future ProcessPoolExecutor None)"
proof -
  have sp: "\<exists>p \<in> set (swap_pools cycle_cb). isinstance_v3_pool p \<and> sparse_liquidity_map p"
    by (simp add: cycle_cb_def pool_c_sparse_def pool_c_def pool_b_def isinstance_v3_pool_def)
  have nsp: "\<not> (\<exists>p \<in> set (swap_pools cycle_ab). isinstance_v3_pool p \<and> sparse_liquidity_map p)"
    by (simp add: cycle_ab_def pool_a_def pool_b_def isinstance_v3_pool_def)
  have c1: "fst (pre_calculation_check 1 None cycle_cb) = Inr ()" by code_simp
  have c2: "fst (pre_calculation_check 1 None cycle_ab) = Inr ()" by code_simp
  note a = calculate_with_pool_refusal [of ProcessPoolExecutor cycle_cb None 1]
  note b = calculate_with_pool_refusal [of ThreadPoolExecutor cycle_cb None 1]
  note c = calculate_with_pool_refusal [of ProcessPoolExecutor cycle_ab None 1]
  have 1: "fst (calculate_with_pool ProcessPoolExecutor None 1 cycle_cb) =
     Inl (DegenbotValueError
       ''Cannot perform calculation with process pool executor. One or more V3 pools has a sparse bitmap.'')"
    using a sp by simp
  have 2: "fst (calculate_with_pool ThreadPoolExecutor None 1 cycle_cb) =
     Inr (Future ThreadPoolExecutor None)"
    using b c1 by simp
  have 3: "fst (calculate_with_pool ProcessPoolExecutor None 1 cycle_ab) =
     Inr (Future ProcessPoolExecutor None)"
    using c nsp c2 by simp
  from sp 1 2 3 show ?thesis by blast
qed

text \<open>
  C6 fails on the source. For the two constant-product pools of the scenario,
  \<^verbatim>\<open>generate_payloads\<close> returns the transfer into the first pool and the swap on the second
  pool only: the first case of the \<^verbatim>\<open>match\<close> statement takes the place of the swap on
  the first pool. In general the list returned has as many payloads as the cycle has pools
  (\<open>generate_payloads_length\<close>), never one more.
\<close>

theorem generate_payloads_first_pool_v2:
  "generate_payloads Inr cycle_ab ''0xF'' 125
     [UniswapV2PoolSwapAmounts ''0xA'' (125, 0) (0, 110),
      UniswapV2PoolSwapAmounts ''0xB'' (0, 110) (108, 0)] =
   Inr [(''T0'', Transfer ''0xA'' 125, 0), (''0xB'', SwapV2 108 0 ''0xF'' [], 0)]"
  by code_simp

text \<open>
  C7. For a constant-product pool (Aerodrome or Uniswap V2) with a constant-product state,
  \<^verbatim>\<open>_pool_is_viable\<close> returns True exactly when both reserves are nonzero and the reserve
  drawn down by the trade (token1 for a zero-for-one trade, token0 otherwise) exceeds 1.
\<close>

theorem pool_is_viable_v2:
  assumes "isinstance_v2_pool p" and "isinstance_v2_state st"
  shows "pool_is_viable p st vector =
    Inr (reserves_token0 st \<noteq> 0 \<and> reserves_token1 st \<noteq> 0 \<and>
         (if zero_for_one vector then reserves_token1 st else reserves_token0 st) > 1)"
  using assms by (simp add: pool_is_viable_def)

theorem pool_is_viable_v2_witness:
  "isinstance_v2_pool pool_a \<and> isinstance_v2_state (state pool_a) \<and>
   pool_is_viable pool_a (state pool_a) vector_01 = Inr True"
  using pool_is_viable_v2 [of pool_a "state pool_a" vector_01]
  by (simp add: pool_a_def isinstance_v2_pool_def vector_01_def)

text \<open>
  C8. On a path of 43 bytes, \<^verbatim>\<open>decode_v3_path\<close> returns three items: the checksummed
  form of the first 20 bytes, the big-endian unsigned value of the next 3 bytes, and the
  checksummed form of the last 20 bytes.
\<close>

theorem decode_v3_path_single_hop:
  assumes len: "length path = 43"
    and first: "to_checksum_address (take 20 path) = Inr a0"
    and second: "to_checksum_address (drop 23 path) = Inr a1"
  shows "decode_v3_path to_checksum_address path =
    Some (Inr [PathAddress a0,
               PathFee (uint (path ! 20) * 65536 + uint (path ! 21) * 256 + uint (path ! 22)),
               PathAddress a1])"
proof -
  have fee: "int_from_bytes (take 3 (drop 20 path)) =
      uint (path ! 20) * 65536 + uint (path ! 21) * 256 + uint (path ! 22)"
    by (simp add: take3_drop20 [OF len] int_from_bytes_def)
  have last: "take 20 (drop 23 path) = drop 23 path" using len by simp
  have step3: "decode_v3_path_loop to_checksum_address path True 23 [PathAddress a0, PathFee (int_from_bytes (take 3 (drop 20 path)))] =
      Some (Inr [PathAddress a0, PathFee (int_from_bytes (take 3 (drop 20 path))), PathAddress a1])"
    by (subst decode_v3_path_loop.simps) (simp add: last second len)
  have step2: "decode_v3_path_loop to_checksum_address path False 20 [PathAddress a0] =
      Some (Inr [PathAddress a0, PathFee (int_from_bytes (take 3 (drop 20 path))), PathAddress a1])"
    by (subst decode_v3_path_loop.simps) (simp add: len step3)
  have step1: "decode_v3_path_loop to_checksum_address path True 0 [] =
      Some (Inr [PathAddress a0, PathFee (int_from_bytes (take 3 (drop 20 path))), PathAddress a1])"
    by (subst decode_v3_path_loop.simps) (simp add: len first step2)
  from step1 fee show ?thesis by (simp add: decode_v3_path_def)
qed

theorem decode_v3_path_single_hop_witness:
  "length example_path = 43 \<and>
   decode_v3_path example_checksum example_path =
     Some (Inr [PathAddress ''0101010101010101010101010101010101010101'', PathFee 3000,
                PathAddress ''0202020202020202020202020202020202020202''])"
proof -
  have len: "length example_path = 43" by (simp add: example_path_def)
  have a0: "example_checksum (take 20 example_path) =
      Inr ''0101010101010101010101010101010101010101''" by code_simp
  have a1: "example_checksum (drop 23 example_path) =
      Inr ''0202020202020202020202020202020202020202''" by code_simp
  have fee: "uint (example_path ! 20) * 65536 + uint (example_path ! 21) * 256 +
      uint (example_path ! 22) = 3000" by code_simp
  from decode_v3_path_single_hop [OF len a0 a1] fee len show ?thesis by simp
qed

text \<open>
  C9. The result of the weighted pool's \<^verbatim>\<open>calculate_tokens_out_from_tokens_in\<close> does not
  depend on the override state: two calls that agree on the pool, the two tokens and the
  quantity agree on the result.
\<close>

theorem calculate_tokens_out_ignores_override:
  "calculate_tokens_out_from_tokens_in lib self t_in quantity_in t_out override_a =
   calculate_tokens_out_from_tokens_in lib self t_in quantity_in t_out override_b"
  by (simp add: calculate_tokens_out_from_tokens_in_def)

text \<open>
  C10. \<^verbatim>\<open>_pre_calculation_check\<close> leaves the cycle as it found it (its viability flags,
  pools, vectors and maximum input among the rest), whether it returns or raises.
\<close>

theorem pre_calculation_check_frame:
  "snd (pre_calculation_check min_rate so self) = self"
proof -
  let ?ov = "overrides_of so"
  obtain r where loop: "viability_loop ?ov (swap_pools self) self = (r, self)"
    using viability_loop_self [of ?ov "swap_pools self" self]
    by (cases "viability_loop ?ov (swap_pools self) self") simp
  then show ?thesis
    by (simp add: pre_calculation_check_def Let_def split: sum.splits prod.splits)
qed

theorem pre_calculation_check_frame_witness:
  "snd (pre_calculation_check 1 None cycle_aa) = cycle_aa \<and>
   fst (pre_calculation_check 1 None cycle_aa) =
     Inl (RateOfExchangeBelowMinimum (994009 / 1000000)) \<and>
   snd (pre_calculation_check 1 None cycle_ab) = cycle_ab \<and>
   fst (pre_calculation_check 1 None cycle_ab) = Inr ()"
proof -
  have 1: "fst (pre_calculation_check 1 None cycle_aa) =
     Inl (RateOfExchangeBelowMinimum (994009 / 1000000))" by code_simp
  have 2: "fst (pre_calculation_check 1 None cycle_ab) = Inr ()" by code_simp
  from 1 2 pre_calculation_check_frame [of 1 None cycle_aa]
    pre_calculation_check_frame [of 1 None cycle_ab]
  show ?thesis by simp
qed

end
